theory Spec2Isabelle
  imports Complex_Main
begin

section \<open>Gasmon: the gas price monitor of gasmon.js\<close>

text \<open>
  The module keeps six variables (\<^verbatim>\<open>_speeds\<close>, \<^verbatim>\<open>_currentSpeed\<close>,
  \<^verbatim>\<open>_onNewSpeedCallback\<close>, \<^verbatim>\<open>_suppressLogs\<close>, \<^verbatim>\<open>_optimized\<close>,
  \<^verbatim>\<open>_details\<close>) and exports functions that read and write them. The embedding
  passes these variables around as one record. An identifier cannot start with an
  underscore here, so the variable \<^verbatim>\<open>_x\<close> is the field \<open>var_x\<close>.

  A JavaScript number is modelled as a rational: JSON numbers are decimal fractions and
  the code only adds, divides by 10, multiplies by \<open>10^9\<close> and compares. Rounding is
  outside the model. A speed argument is a number like any other, so it is a rational
  too: nothing in JavaScript makes it an integer. NaN and the infinities, and bodies
  that are not a document, come in with the section on arbitrary numbers and bodies,
  for the two functions that check what they are given.
\<close>

subsection \<open>Data\<close>

text \<open>An entry of \<^verbatim>\<open>_speeds\<close>: the object \<^verbatim>\<open>{ gwei: ..., wait: ... }\<close>.\<close>

record speedEntry =
  gwei :: rat
  wait :: rat

text \<open>
  The document of Eth Gas Station. The code reads the eight fields below; the fields it
  never reads (\<^verbatim>\<open>block_time\<close>, \<^verbatim>\<open>blockNum\<close>, \<^verbatim>\<open>speed\<close>) are kept by name in
  \<open>passthrough\<close>, and \<^verbatim>\<open>gasPriceRange\<close> as its list of pairs.
\<close>

record response =
  safeLow :: rat
  average :: rat
  fast :: rat
  fastest :: rat
  safeLowWait :: rat
  avgWait :: rat
  fastWait :: rat
  fastestWait :: rat
  passthrough :: "(string \<times> rat) list"
  gasPriceRange :: "(string \<times> rat) list"

text \<open>Reading a property of \<^verbatim>\<open>undefined\<close> throws a TypeError.\<close>

datatype error = TypeError

text \<open>
  What the module does to the outside: the lines it prints with \<^verbatim>\<open>console.log\<close>, the
  calls of the registered callback, and an exception nobody catches (the browser reports
  it and the page goes on).
\<close>

datatype logLine =
  Initializing
| NewSpeedLimits rat rat rat rat
| DefaultSpeedSet rat
| OptimizedSet bool

datatype event = ConsoleLog logLine | CallbackInvoked | Uncaught error

text \<open>
  The module's variables. \<open>var_onNewSpeedCallback\<close> says whether a function is
  registered (the code only tests the variable and calls it); \<open>var_suppressLogs\<close> is the
  truth value of \<^verbatim>\<open>_suppressLogs\<close>; \<open>var_details\<close> is \<open>None\<close> while \<^verbatim>\<open>_details\<close>
  is undefined. \<open>intervals\<close> holds the period in milliseconds of every timer started with
  \<^verbatim>\<open>setInterval\<close>, and \<open>trace\<close> the events so far, oldest first.
\<close>

record state =
  var_speeds :: "speedEntry list"
  var_currentSpeed :: rat
  var_onNewSpeedCallback :: bool
  var_suppressLogs :: bool
  var_optimized :: bool
  var_details :: "response option"
  intervals :: "rat list"
  trace :: "event list"

definition defaultIntervalInMinutes :: rat where
  "defaultIntervalInMinutes = 3"

definition defaultSpeed :: rat where
  "defaultSpeed = 2"

text \<open>The variables as the module's top level initialises them.\<close>

definition module_state :: state where
  "module_state =
     \<lparr> var_speeds =
         [\<lparr> gwei = 1, wait = 71 / 10 \<rparr>, \<lparr> gwei = 5, wait = 7 / 2 \<rparr>,
          \<lparr> gwei = 10, wait = 1 / 2 \<rparr>, \<lparr> gwei = 20, wait = 1 / 2 \<rparr>],
       var_currentSpeed = defaultSpeed,
       var_onNewSpeedCallback = False,
       var_suppressLogs = False,
       var_optimized = True,
       var_details = None,
       intervals = [],
       trace = [] \<rparr>"

subsection \<open>JavaScript operators the code uses\<close>

text \<open>
  \<^verbatim>\<open>xs[k]\<close> for a number \<open>k\<close>: the element when \<open>k\<close> is an integer from 0 below the
  length, \<^verbatim>\<open>undefined\<close> otherwise (a negative or fractional \<open>k\<close> names a property the
  array does not have).
\<close>

definition js_index :: "'a list \<Rightarrow> rat \<Rightarrow> 'a option" where
  "js_index xs k =
     (if k = of_int \<lfloor>k\<rfloor> \<and> 0 \<le> k \<and> k < of_nat (length xs)
      then Some (xs ! nat \<lfloor>k\<rfloor>) else None)"

text \<open>
  \<^verbatim>\<open>a % b\<close> for \<open>b \<noteq> 0\<close>: the remainder of the division truncated towards zero (it has
  the sign of \<open>a\<close>).
\<close>

definition js_rem :: "rat \<Rightarrow> rat \<Rightarrow> rat" where
  "js_rem a b =
     a - b * of_int (if 0 \<le> a / b then \<lfloor>a / b\<rfloor> else \<lceil>a / b\<rceil>)"

text \<open>
  \<^verbatim>\<open>c1 || c2 || ...\<close> over conditions that may throw: left to right, stopping at the
  first that throws or is true.
\<close>

fun js_or :: "(error + bool) list \<Rightarrow> error + bool" where
  "js_or [] = Inr False"
| "js_or (Inl e # cs) = Inl e"
| "js_or (Inr True # cs) = Inr True"
| "js_or (Inr False # cs) = js_or cs"

text \<open>\<^verbatim>\<open>if(!_suppressLogs) console.log(...)\<close>\<close>

definition console_log :: "logLine \<Rightarrow> state \<Rightarrow> state" where
  "console_log l s =
     (if var_suppressLogs s then s else s\<lparr> trace := trace s @ [ConsoleLog l] \<rparr>)"

subsection \<open>The price refresh\<close>

text \<open>
  \<^verbatim>\<open>onGasPricesReceived\<close>, lines 48 to 51: the four new entries, each price divided by
  10 and paired with its waiting time.
\<close>

definition newSpeed1 :: "response \<Rightarrow> speedEntry" where
  "newSpeed1 response = \<lparr> gwei = safeLow response / 10, wait = safeLowWait response \<rparr>"

definition newSpeed2 :: "response \<Rightarrow> speedEntry" where
  "newSpeed2 response = \<lparr> gwei = average response / 10, wait = avgWait response \<rparr>"

definition newSpeed3 :: "response \<Rightarrow> speedEntry" where
  "newSpeed3 response = \<lparr> gwei = fast response / 10, wait = fastWait response \<rparr>"

definition newSpeed4 :: "response \<Rightarrow> speedEntry" where
  "newSpeed4 response = \<lparr> gwei = fastest response / 10, wait = fastestWait response \<rparr>"

text \<open>
  Lines 53 to 56: the value of \<^verbatim>\<open>newSpeed4\<close> after the block
  \<^verbatim>\<open>if(_optimized) { if(newSpeed4.wait == newSpeed3.wait) newSpeed4 = newSpeed3; }\<close>.
  After the assignment both names denote one object; the module never writes into an
  entry, so the entry is modelled by its value.
\<close>

definition newSpeed4_optimized :: "bool \<Rightarrow> response \<Rightarrow> speedEntry" where
  "newSpeed4_optimized opt response =
     (if opt then
        (if wait (newSpeed4 response) = wait (newSpeed3 response)
         then newSpeed3 response else newSpeed4 response)
      else newSpeed4 response)"

text \<open>The four entries the comparison of line 58 sees, in the order of the table.\<close>

definition newSpeeds :: "bool \<Rightarrow> response \<Rightarrow> speedEntry list" where
  "newSpeeds opt response =
     [newSpeed1 response, newSpeed2 response, newSpeed3 response,
      newSpeed4_optimized opt response]"

text \<open>One operand of line 58: \<^verbatim>\<open>_speeds[k].gwei != n.gwei\<close>.\<close>

definition gwei_differs :: "speedEntry list \<Rightarrow> rat \<Rightarrow> speedEntry \<Rightarrow> error + bool" where
  "gwei_differs xs k n =
     (case js_index xs k of
        None \<Rightarrow> Inl TypeError
      | Some e \<Rightarrow> Inr (gwei e \<noteq> gwei n))"

text \<open>
  \<^verbatim>\<open>onGasPricesReceived(response)\<close>. The four assignments \<^verbatim>\<open>_speeds[0] = ...\<close> to
  \<^verbatim>\<open>_speeds[3] = ...\<close> overwrite the first four places of the array and keep what lies
  beyond them.
\<close>

definition onGasPricesReceived :: "response \<Rightarrow> state \<Rightarrow> state" where
  "onGasPricesReceived response s =
     (let s1 = s\<lparr> var_details := Some response \<rparr>;
          n1 = newSpeed1 response;
          n2 = newSpeed2 response;
          n3 = newSpeed3 response;
          n4 = newSpeed4_optimized (var_optimized s1) response
      in case js_or [gwei_differs (var_speeds s1) 0 n1, gwei_differs (var_speeds s1) 1 n2,
                     gwei_differs (var_speeds s1) 2 n3, gwei_differs (var_speeds s1) 3 n4] of
           Inl e \<Rightarrow> s1\<lparr> trace := trace s1 @ [Uncaught e] \<rparr>
         | Inr False \<Rightarrow> s1
         | Inr True \<Rightarrow>
             (let s2 = console_log (NewSpeedLimits (gwei n1) (gwei n2) (gwei n3) (gwei n4)) s1;
                  s3 = s2\<lparr> var_speeds := [n1, n2, n3, n4] @ drop 4 (var_speeds s2) \<rparr>
              in if var_onNewSpeedCallback s3
                 then s3\<lparr> trace := trace s3 @ [CallbackInvoked] \<rparr>
                 else s3))"

text \<open>
  How a request of \<^verbatim>\<open>$.get\<close> ends: jQuery either never calls the function it was given
  (the request failed, or the body did not parse), or calls it with the parsed document
  and a status text. A document handed over is one with the eight numeric fields the
  code reads.
\<close>

datatype fetch = Failed | Done response string

text \<open>
  \<^verbatim>\<open>estimateGasCost()\<close>, from the moment its request ends: the function only starts the
  request, and everything it does to the module happens in the function it hands to
  \<^verbatim>\<open>$.get\<close>.
\<close>

definition estimateGasCost :: "fetch \<Rightarrow> state \<Rightarrow> state" where
  "estimateGasCost f s =
     (case f of
        Failed \<Rightarrow> s
      | Done data status \<Rightarrow>
          (if status = ''success'' then onGasPricesReceived data s else s))"

text \<open>
  \<^verbatim>\<open>init(onNewSpeedsFunction, checkIntervalInMinutes, suppressLogs)\<close>. The first argument
  says whether a function was passed; the second is \<open>None\<close> when omitted. The request that
  \<open>init\<close> starts, and those of the timer, end later: each is an \<open>estimateGasCost\<close> step.
\<close>

definition init :: "bool \<Rightarrow> rat option \<Rightarrow> bool \<Rightarrow> state \<Rightarrow> state" where
  "init onNewSpeedsFunction checkIntervalInMinutes suppressLogs s =
     (let s1 = s\<lparr> var_suppressLogs := suppressLogs \<rparr>;
          s2 = console_log Initializing s1;
          s3 = s2\<lparr> var_onNewSpeedCallback := onNewSpeedsFunction \<rparr>;
          interval = (case checkIntervalInMinutes of
                        None \<Rightarrow> defaultIntervalInMinutes
                      | Some m \<Rightarrow> if m = 0 then defaultIntervalInMinutes else m)
      in s3\<lparr> intervals := intervals s3 @ [1000 * 60 * interval] \<rparr>)"

subsection \<open>The accessors\<close>

definition currentSpeed :: "state \<Rightarrow> rat" where
  "currentSpeed s = var_currentSpeed s"

definition currentWait :: "state \<Rightarrow> error + rat" where
  "currentWait s =
     (case js_index (var_speeds s) (var_currentSpeed s - 1) of
        None \<Rightarrow> Inl TypeError
      | Some e \<Rightarrow> Inr (wait e))"

text \<open>
  \<^verbatim>\<open>idealGasPriceInGwei(speed)\<close>. The argument is \<open>None\<close> when omitted; \<^verbatim>\<open>!speed\<close> holds
  for an omitted argument and for 0.
\<close>

definition idealGasPriceInGwei :: "rat option \<Rightarrow> state \<Rightarrow> error + rat" where
  "idealGasPriceInGwei speed s =
     (let speed' = (case speed of
                      None \<Rightarrow> var_currentSpeed s
                    | Some v \<Rightarrow> if v = 0 then var_currentSpeed s else v)
      in case js_index (var_speeds s) (speed' - 1) of
           None \<Rightarrow> Inl TypeError
         | Some e \<Rightarrow> Inr (gwei e))"

definition idealGasPrice :: "rat option \<Rightarrow> state \<Rightarrow> error + rat" where
  "idealGasPrice speed s =
     (case idealGasPriceInGwei speed s of
        Inl e \<Rightarrow> Inl e
      | Inr g \<Rightarrow> Inr (g * 1000000000))"

definition setSpeed :: "rat \<Rightarrow> state \<Rightarrow> bool \<times> state" where
  "setSpeed speed s =
     (if speed < 1 \<or> speed > 4 then (False, s)
      else (True, console_log (DefaultSpeedSet speed) (s\<lparr> var_currentSpeed := speed \<rparr>)))"

definition nextSpeed :: "state \<Rightarrow> rat \<times> state" where
  "nextSpeed s =
     (let nextIndex = js_rem (var_currentSpeed s + 1) 4;
          s' = snd (setSpeed nextIndex s)
      in (var_currentSpeed s', s'))"

definition speeds :: "state \<Rightarrow> speedEntry list" where
  "speeds s = var_speeds s"

definition optimized :: "bool \<Rightarrow> state \<Rightarrow> state" where
  "optimized trueOrFalse s =
     console_log (OptimizedSet trueOrFalse) (s\<lparr> var_optimized := trueOrFalse \<rparr>)"

definition details :: "state \<Rightarrow> response option" where
  "details s = var_details s"

subsection \<open>Sequences of calls\<close>

text \<open>
  What can happen to the module: a call of an exported function that writes a variable,
  or the end of a request.
\<close>

datatype call =
  Init bool "rat option" bool
| SetSpeed rat
| NextSpeed
| Optimized bool
| RequestEnds fetch

fun step :: "state \<Rightarrow> call \<Rightarrow> state" where
  "step s (Init f m q) = init f m q s"
| "step s (SetSpeed v) = snd (setSpeed v s)"
| "step s NextSpeed = snd (nextSpeed s)"
| "step s (Optimized b) = optimized b s"
| "step s (RequestEnds f) = estimateGasCost f s"

definition run :: "call list \<Rightarrow> state \<Rightarrow> state" where
  "run cs s = foldl step s cs"

text \<open>The number of times the callback has been called.\<close>

definition callbacks :: "state \<Rightarrow> nat" where
  "callbacks s = count_list (trace s) CallbackInvoked"

text \<open>A call whose speed argument, if it has one, is an integer.\<close>

fun integer_argument :: "call \<Rightarrow> bool" where
  "integer_argument (SetSpeed v) = (v = of_int \<lfloor>v\<rfloor>)"
| "integer_argument c = True"

subsection \<open>Two documents\<close>

text \<open>
  The document quoted in the comment of \<^verbatim>\<open>details\<close>, and one whose four prices are
  ten times the prices the table starts with.
\<close>

definition example_response :: response where
  "example_response =
     \<lparr> safeLow = 10, average = 10, fast = 80, fastest = 350,
       safeLowWait = 16 / 5, avgWait = 16 / 5, fastWait = 1 / 2, fastestWait = 1 / 2,
       passthrough = [(''blockNum'', 9262855)],
       gasPriceRange = [(''350'', 1 / 2), (''80'', 1 / 2), (''10'', 16 / 5)] \<rparr>"

definition initial_prices_response :: response where
  "initial_prices_response =
     \<lparr> safeLow = 10, average = 50, fast = 100, fastest = 200,
       safeLowWait = 3, avgWait = 2, fastWait = 1, fastestWait = 1 / 2,
       passthrough = [], gasPriceRange = [] \<rparr>"

section \<open>Arbitrary numbers and arbitrary bodies\<close>

text \<open>
  The definitions above take the numbers of the contract: a speed and a price are
  rationals, a document has its eight numeric fields. Two checks of the code are about
  what lies outside: \<^verbatim>\<open>setSpeed\<close> receives whatever number the caller passes, and the
  function handed to \<^verbatim>\<open>$.get\<close> receives whatever body jQuery parsed. This section
  models \<^verbatim>\<open>setSpeed\<close>, \<^verbatim>\<open>onGasPricesReceived\<close> and \<^verbatim>\<open>estimateGasCost\<close> once more, line
  by line as above, over all JavaScript numbers and over bodies that need not be a
  document. The names carry the suffix \<open>_js\<close>; on the numbers of the contract the two
  models agree (lemmas \<open>setSpeed_js_agrees\<close> and \<open>estimateGasCost_js_agrees\<close>).
\<close>

subsection \<open>Numbers\<close>

text \<open>A JavaScript number: a finite one (rounding aside), an infinity or NaN.\<close>

datatype jsnum = Num rat | PosInf | NegInf | NaN

text \<open>\<^verbatim>\<open>a < b\<close>: false as soon as one side is NaN.\<close>

fun js_lt :: "jsnum \<Rightarrow> jsnum \<Rightarrow> bool" where
  "js_lt (Num a) (Num b) = (a < b)"
| "js_lt (Num a) PosInf = True"
| "js_lt NegInf (Num b) = True"
| "js_lt NegInf PosInf = True"
| "js_lt a b = False"

text \<open>\<^verbatim>\<open>a != b\<close> on numbers: true as soon as one side is NaN.\<close>

definition js_ne :: "jsnum \<Rightarrow> jsnum \<Rightarrow> bool" where
  "js_ne a b = (if a = NaN \<or> b = NaN then True else a \<noteq> b)"

text \<open>
  \<^verbatim>\<open>x / 10\<close> for a property that holds a finite number or is missing:
  \<^verbatim>\<open>undefined / 10\<close> is NaN.
\<close>

fun js_div10 :: "rat option \<Rightarrow> jsnum" where
  "js_div10 None = NaN"
| "js_div10 (Some v) = Num (v / 10)"

subsection \<open>Bodies, entries and the variables\<close>

text \<open>
  What jQuery can hand over as \<^verbatim>\<open>data\<close>: \<^verbatim>\<open>null\<close>, or a value whose properties can be
  read (an object of any shape, an array, a string). Such a value is seen through the
  eight properties the code reads, each a finite number or missing (\<open>None\<close>, read as
  \<^verbatim>\<open>undefined\<close>). Properties holding a string, a boolean or \<^verbatim>\<open>null\<close> are not modelled.
\<close>

record properties =
  prop_safeLow :: "rat option"
  prop_average :: "rat option"
  prop_fast :: "rat option"
  prop_fastest :: "rat option"
  prop_safeLowWait :: "rat option"
  prop_avgWait :: "rat option"
  prop_fastWait :: "rat option"
  prop_fastestWait :: "rat option"
  prop_passthrough :: "(string \<times> rat) list"
  prop_gasPriceRange :: "(string \<times> rat) list"

datatype body = JsNull | JsObject properties

text \<open>
  An entry of \<^verbatim>\<open>_speeds\<close>: its price may be NaN, its waiting time may be
  \<^verbatim>\<open>undefined\<close>.
\<close>

record entry_js =
  gwei_js :: jsnum
  wait_js :: "rat option"

datatype logLine_js =
  Initializing_js
| NewSpeedLimits_js jsnum jsnum jsnum jsnum
| DefaultSpeedSet_js jsnum
| OptimizedSet_js bool

datatype event_js = ConsoleLog_js logLine_js | CallbackInvoked_js | Uncaught_js error

record state_js =
  js_speeds :: "entry_js list"
  js_currentSpeed :: jsnum
  js_onNewSpeedCallback :: bool
  js_suppressLogs :: bool
  js_optimized :: bool
  js_details :: "body option"
  js_intervals :: "rat list"
  js_trace :: "event_js list"

definition console_log_js :: "logLine_js \<Rightarrow> state_js \<Rightarrow> state_js" where
  "console_log_js l s =
     (if js_suppressLogs s then s else s\<lparr> js_trace := js_trace s @ [ConsoleLog_js l] \<rparr>)"

definition callbacks_js :: "state_js \<Rightarrow> nat" where
  "callbacks_js s = count_list (js_trace s) CallbackInvoked_js"

subsection \<open>The functions\<close>

text \<open>\<^verbatim>\<open>setSpeed(speed)\<close>, lines 128 to 137.\<close>

definition setSpeed_js :: "jsnum \<Rightarrow> state_js \<Rightarrow> bool \<times> state_js" where
  "setSpeed_js speed s =
     (if js_lt speed (Num 1) \<or> js_lt (Num 4) speed then (False, s)
      else (True, console_log_js (DefaultSpeedSet_js speed) (s\<lparr> js_currentSpeed := speed \<rparr>)))"

text \<open>One operand of line 58: \<^verbatim>\<open>_speeds[k].gwei != n.gwei\<close>.\<close>

definition gwei_differs_js :: "entry_js list \<Rightarrow> rat \<Rightarrow> entry_js \<Rightarrow> error + bool" where
  "gwei_differs_js xs k n =
     (case js_index xs k of
        None \<Rightarrow> Inl TypeError
      | Some e \<Rightarrow> Inr (js_ne (gwei_js e) (gwei_js n)))"

text \<open>
  \<^verbatim>\<open>onGasPricesReceived(response)\<close>, lines 45 to 70. The body is stored first. Reading
  \<^verbatim>\<open>response.safeLow\<close> of \<^verbatim>\<open>null\<close> throws; of any other value it gives the property or
  \<^verbatim>\<open>undefined\<close>. In line 54, \<^verbatim>\<open>==\<close> holds between two missing waiting times.
\<close>

definition onGasPricesReceived_js :: "body \<Rightarrow> state_js \<Rightarrow> state_js" where
  "onGasPricesReceived_js response s =
     (let s1 = s\<lparr> js_details := Some response \<rparr>
      in case response of
           JsNull \<Rightarrow> s1\<lparr> js_trace := js_trace s1 @ [Uncaught_js TypeError] \<rparr>
         | JsObject p \<Rightarrow>
             (let n1 = \<lparr> gwei_js = js_div10 (prop_safeLow p), wait_js = prop_safeLowWait p \<rparr>;
                  n2 = \<lparr> gwei_js = js_div10 (prop_average p), wait_js = prop_avgWait p \<rparr>;
                  n3 = \<lparr> gwei_js = js_div10 (prop_fast p), wait_js = prop_fastWait p \<rparr>;
                  n4 = \<lparr> gwei_js = js_div10 (prop_fastest p), wait_js = prop_fastestWait p \<rparr>;
                  n4' = (if js_optimized s1 then
                           (if wait_js n4 = wait_js n3 then n3 else n4)
                         else n4)
              in case js_or [gwei_differs_js (js_speeds s1) 0 n1,
                             gwei_differs_js (js_speeds s1) 1 n2,
                             gwei_differs_js (js_speeds s1) 2 n3,
                             gwei_differs_js (js_speeds s1) 3 n4'] of
                   Inl e \<Rightarrow> s1\<lparr> js_trace := js_trace s1 @ [Uncaught_js e] \<rparr>
                 | Inr False \<Rightarrow> s1
                 | Inr True \<Rightarrow>
                     (let s2 = console_log_js
                                 (NewSpeedLimits_js (gwei_js n1) (gwei_js n2) (gwei_js n3)
                                    (gwei_js n4')) s1;
                          s3 = s2\<lparr> js_speeds := [n1, n2, n3, n4'] @ drop 4 (js_speeds s2) \<rparr>
                      in if js_onNewSpeedCallback s3
                         then s3\<lparr> js_trace := js_trace s3 @ [CallbackInvoked_js] \<rparr>
                         else s3)))"

text \<open>
  How a request ends: jQuery never calls the function (no answer, an HTTP error, a body
  it cannot parse), or calls it with the body it parsed and a status text.
\<close>

datatype fetch_js = NotCalled | Called body string

text \<open>\<^verbatim>\<open>estimateGasCost()\<close>, lines 38 to 43, from the moment its request ends.\<close>

definition estimateGasCost_js :: "fetch_js \<Rightarrow> state_js \<Rightarrow> state_js" where
  "estimateGasCost_js f s =
     (case f of
        NotCalled \<Rightarrow> s
      | Called data status \<Rightarrow>
          (if status = ''success'' then onGasPricesReceived_js data s else s))"

subsection \<open>From the numbers of the contract to arbitrary ones\<close>

definition js_of_entry :: "speedEntry \<Rightarrow> entry_js" where
  "js_of_entry e = \<lparr> gwei_js = Num (gwei e), wait_js = Some (wait e) \<rparr>"

definition js_of_response :: "response \<Rightarrow> body" where
  "js_of_response r =
     JsObject
       \<lparr> prop_safeLow = Some (safeLow r), prop_average = Some (average r),
         prop_fast = Some (fast r), prop_fastest = Some (fastest r),
         prop_safeLowWait = Some (safeLowWait r), prop_avgWait = Some (avgWait r),
         prop_fastWait = Some (fastWait r), prop_fastestWait = Some (fastestWait r),
         prop_passthrough = passthrough r, prop_gasPriceRange = gasPriceRange r \<rparr>"

fun js_of_logLine :: "logLine \<Rightarrow> logLine_js" where
  "js_of_logLine Initializing = Initializing_js"
| "js_of_logLine (NewSpeedLimits a b c d) = NewSpeedLimits_js (Num a) (Num b) (Num c) (Num d)"
| "js_of_logLine (DefaultSpeedSet v) = DefaultSpeedSet_js (Num v)"
| "js_of_logLine (OptimizedSet b) = OptimizedSet_js b"

fun js_of_event :: "event \<Rightarrow> event_js" where
  "js_of_event (ConsoleLog l) = ConsoleLog_js (js_of_logLine l)"
| "js_of_event CallbackInvoked = CallbackInvoked_js"
| "js_of_event (Uncaught e) = Uncaught_js e"

definition js_of_state :: "state \<Rightarrow> state_js" where
  "js_of_state s =
     \<lparr> js_speeds = map js_of_entry (var_speeds s),
       js_currentSpeed = Num (var_currentSpeed s),
       js_onNewSpeedCallback = var_onNewSpeedCallback s,
       js_suppressLogs = var_suppressLogs s,
       js_optimized = var_optimized s,
       js_details = map_option js_of_response (var_details s),
       js_intervals = intervals s,
       js_trace = map js_of_event (trace s) \<rparr>"

fun js_of_fetch :: "fetch \<Rightarrow> fetch_js" where
  "js_of_fetch Failed = NotCalled"
| "js_of_fetch (Done r status) = Called (js_of_response r) status"

text \<open>
  A body of another shape, as a service answers when it refuses a request:
  \<^verbatim>\<open>{"error": "..."}\<close>. None of the eight properties is there.
\<close>

definition error_body :: body where
  "error_body =
     JsObject
       \<lparr> prop_safeLow = None, prop_average = None, prop_fast = None, prop_fastest = None,
         prop_safeLowWait = None, prop_avgWait = None, prop_fastWait = None,
         prop_fastestWait = None, prop_passthrough = [], prop_gasPriceRange = [] \<rparr>"

section \<open>Properties\<close>

subsection \<open>Indexing and remainders\<close>

lemma integer_between_1_and_4:
  fixes v :: rat
  assumes "v = of_int \<lfloor>v\<rfloor>" and "1 \<le> v" and "v \<le> 4"
  shows "v \<in> {1, 2, 3, 4}"
proof -
  define n where "n = \<lfloor>v\<rfloor>"
  have v: "v = of_int n" using assms(1) by (simp add: n_def)
  have "1 \<le> n" "n \<le> 4" using assms(2,3) unfolding v by simp_all
  then have "n = 1 \<or> n = 2 \<or> n = 3 \<or> n = 4" by arith
  then show ?thesis unfolding v by auto
qed

lemma js_index_in_range:
  "js_index xs (of_nat i) = (if i < length xs then Some (xs ! i) else None)"
  by (simp add: js_index_def)

lemma js_index_outside:
  fixes t :: rat
  assumes "t \<notin> {1, 2, 3, 4}" and "length xs = 4"
  shows "js_index xs (t - 1) = None"
proof (rule ccontr)
  assume "js_index xs (t - 1) \<noteq> None"
  then have i: "t - 1 = of_int \<lfloor>t - 1\<rfloor>" and lo: "0 \<le> t - 1" and hi: "t - 1 < 4"
    using assms(2) by (auto simp: js_index_def split: if_splits)
  define n where "n = \<lfloor>t - 1\<rfloor>"
  have t: "t = of_int (n + 1)" using i by (simp add: n_def)
  have "0 \<le> n" "n < 4" using lo hi unfolding t by simp_all
  then have "n = 0 \<or> n = 1 \<or> n = 2 \<or> n = 3" by arith
  then have "t \<in> {1, 2, 3, 4}" unfolding t by auto
  with assms(1) show False by contradiction
qed

lemma js_index_4:
  "js_index [a, b, c, d] 0 = Some a" "js_index [a, b, c, d] 1 = Some b"
  "js_index [a, b, c, d] 2 = Some c" "js_index [a, b, c, d] 3 = Some d"
  by (simp_all add: js_index_def)

lemma length_4_cases:
  assumes "length xs = 4"
  obtains a b c d where "xs = [a, b, c, d]"
  using assms by (auto simp: length_Suc_conv numeral_eq_Suc)

lemma js_rem_4:
  "js_rem 2 4 = 2" "js_rem 3 4 = 3" "js_rem 4 4 = 0" "js_rem 5 4 = 1"
  by code_simp+

subsection \<open>A refresh on a table of four entries\<close>

lemma js_or_4:
  "js_or [Inr a, Inr b, Inr c, Inr d] = Inr (a \<or> b \<or> c \<or> d)"
  by (cases a; cases b; cases c; cases d) simp_all

lemma onGasPricesReceived_4:
  assumes "length (var_speeds s) = 4"
  shows "onGasPricesReceived r s =
     (if map gwei (var_speeds s) = map gwei (newSpeeds (var_optimized s) r)
      then s\<lparr> var_details := Some r \<rparr>
      else (if var_onNewSpeedCallback s
            then (\<lambda>u. u\<lparr> trace := trace u @ [CallbackInvoked] \<rparr>) else (\<lambda>u. u))
             ((console_log
                (NewSpeedLimits (gwei (newSpeed1 r)) (gwei (newSpeed2 r)) (gwei (newSpeed3 r))
                   (gwei (newSpeed4_optimized (var_optimized s) r)))
                (s\<lparr> var_details := Some r \<rparr>))
              \<lparr> var_speeds := newSpeeds (var_optimized s) r \<rparr>))"
proof -
  obtain a b c d where xs: "var_speeds s = [a, b, c, d]"
    using assms by (rule length_4_cases)
  show ?thesis
    by (simp add: onGasPricesReceived_def Let_def xs js_index_4 gwei_differs_def js_or_4
        newSpeeds_def console_log_def)
qed

lemma onGasPricesReceived_speeds:
  assumes "length (var_speeds s) = 4"
  shows "var_speeds (onGasPricesReceived r s) =
     (if map gwei (var_speeds s) = map gwei (newSpeeds (var_optimized s) r)
      then var_speeds s else newSpeeds (var_optimized s) r)"
  by (simp add: onGasPricesReceived_4 [OF assms] console_log_def)

lemma onGasPricesReceived_callbacks:
  assumes "length (var_speeds s) = 4"
  shows "callbacks (onGasPricesReceived r s) =
     (if var_onNewSpeedCallback s \<and>
         map gwei (var_speeds s) \<noteq> map gwei (newSpeeds (var_optimized s) r)
      then callbacks s + 1 else callbacks s)"
  by (simp add: onGasPricesReceived_4 [OF assms] console_log_def callbacks_def)

lemma onGasPricesReceived_prices:
  assumes "length (var_speeds s) = 4"
  shows "map gwei (var_speeds (onGasPricesReceived r s)) = map gwei (newSpeeds (var_optimized s) r)"
  by (simp add: onGasPricesReceived_speeds [OF assms])

lemma onGasPricesReceived_frame:
  "var_currentSpeed (onGasPricesReceived r s) = var_currentSpeed s"
  "var_optimized (onGasPricesReceived r s) = var_optimized s"
  "var_onNewSpeedCallback (onGasPricesReceived r s) = var_onNewSpeedCallback s"
  "var_suppressLogs (onGasPricesReceived r s) = var_suppressLogs s"
  "var_details (onGasPricesReceived r s) = Some r"
  by (simp_all add: onGasPricesReceived_def Let_def console_log_def
      split: sum.splits bool.splits)


lemma onGasPricesReceived_length:
  assumes "length (var_speeds s) = 4"
  shows "length (var_speeds (onGasPricesReceived r s)) = 4"
  using assms by (simp add: onGasPricesReceived_speeds [OF assms] newSpeeds_def)

subsection \<open>What every call preserves\<close>

lemma estimateGasCost_frame:
  "var_currentSpeed (estimateGasCost f s) = var_currentSpeed s"
  "var_optimized (estimateGasCost f s) = var_optimized s"
  by (simp_all add: estimateGasCost_def onGasPricesReceived_frame split: fetch.splits)

lemma estimateGasCost_length:
  assumes "length (var_speeds s) = 4"
  shows "length (var_speeds (estimateGasCost f s)) = 4"
  using assms by (simp add: estimateGasCost_def onGasPricesReceived_length split: fetch.splits)

lemma step_length:
  assumes "length (var_speeds s) = 4"
  shows "length (var_speeds (step s c)) = 4"
  using assms
  by (cases c)
     (simp_all add: init_def Let_def console_log_def setSpeed_def nextSpeed_def optimized_def
        estimateGasCost_length)

lemma run_length:
  assumes "length (var_speeds s) = 4"
  shows "length (var_speeds (run cs s)) = 4"
  using assms unfolding run_def
  by (induction cs arbitrary: s) (simp_all add: step_length)

lemma module_state_length: "length (var_speeds module_state) = 4"
  by (simp add: module_state_def)

subsection \<open>The current speed under calls with integer arguments\<close>

lemma setSpeed_currentSpeed:
  "var_currentSpeed (snd (setSpeed v s)) = (if v < 1 \<or> v > 4 then var_currentSpeed s else v)"
  by (simp add: setSpeed_def console_log_def)

lemma setSpeed_integer:
  assumes "v = of_int \<lfloor>v\<rfloor>" and "var_currentSpeed s \<in> {1, 2, 3, 4}"
  shows "var_currentSpeed (snd (setSpeed v s)) \<in> {1, 2, 3, 4}"
proof (cases "v < 1 \<or> v > 4")
  case True
  then show ?thesis using assms(2) by (simp add: setSpeed_currentSpeed)
next
  case False
  then have "v \<in> {1, 2, 3, 4}" using assms(1) by (intro integer_between_1_and_4) simp_all
  with False show ?thesis by (simp add: setSpeed_currentSpeed)
qed

lemma nextSpeed_in_range:
  assumes "var_currentSpeed s \<in> {1, 2, 3, 4}"
  shows "var_currentSpeed (snd (nextSpeed s)) \<in> {1, 2, 3, 4}"
proof -
  from assms consider "var_currentSpeed s = 1" | "var_currentSpeed s = 2"
    | "var_currentSpeed s = 3" | "var_currentSpeed s = 4"
    by auto
  then show ?thesis
    by cases (simp_all add: nextSpeed_def Let_def setSpeed_currentSpeed js_rem_4)
qed

lemma step_currentSpeed:
  assumes "integer_argument c" and "var_currentSpeed s \<in> {1, 2, 3, 4}"
  shows "var_currentSpeed (step s c) \<in> {1, 2, 3, 4}"
proof (cases c)
  case (Init f m q)
  then show ?thesis using assms(2) by (simp add: init_def Let_def console_log_def)
next
  case (SetSpeed v)
  with assms have "var_currentSpeed (snd (setSpeed v s)) \<in> {1, 2, 3, 4}"
    by (intro setSpeed_integer) simp_all
  with SetSpeed show ?thesis by simp
next
  case NextSpeed
  from assms(2) have "var_currentSpeed (snd (nextSpeed s)) \<in> {1, 2, 3, 4}"
    by (rule nextSpeed_in_range)
  with NextSpeed show ?thesis by simp
next
  case (Optimized b)
  then show ?thesis using assms(2) by (simp add: optimized_def console_log_def)
next
  case (RequestEnds f)
  then show ?thesis using assms(2) by (simp add: estimateGasCost_frame)
qed

lemma run_currentSpeed:
  assumes "list_all integer_argument cs" and "var_currentSpeed s \<in> {1, 2, 3, 4}"
  shows "var_currentSpeed (run cs s) \<in> {1, 2, 3, 4}"
  using assms unfolding run_def
proof (induction cs arbitrary: s)
  case Nil
  then show ?case by simp
next
  case (Cons c cs)
  from Cons.prems have "var_currentSpeed (step s c) \<in> {1, 2, 3, 4}"
    by (intro step_currentSpeed) simp_all
  with Cons.prems Cons.IH [of "step s c"] show ?case by simp
qed

subsection \<open>A refresh that succeeds, and two in a row\<close>

lemma estimateGasCost_success:
  "estimateGasCost (Done r ''success'') s = onGasPricesReceived r s"
  by (simp add: estimateGasCost_def)

lemma onGasPricesReceived_unchanged:
  assumes "length (var_speeds s) = 4"
    and "map gwei (var_speeds s) = map gwei (newSpeeds (var_optimized s) r)"
  shows "onGasPricesReceived r s = s\<lparr> var_details := Some r \<rparr>"
  using assms(2) by (simp add: onGasPricesReceived_4 [OF assms(1)])

lemma onGasPricesReceived_twice:
  assumes "length (var_speeds s) = 4"
    and "map gwei (newSpeeds (var_optimized s) r2) = map gwei (newSpeeds (var_optimized s) r1)"
  shows "onGasPricesReceived r2 (onGasPricesReceived r1 s) =
         (onGasPricesReceived r1 s)\<lparr> var_details := Some r2 \<rparr>"
proof (rule onGasPricesReceived_unchanged)
  show "length (var_speeds (onGasPricesReceived r1 s)) = 4"
    using assms(1) by (rule onGasPricesReceived_length)
  show "map gwei (var_speeds (onGasPricesReceived r1 s)) =
        map gwei (newSpeeds (var_optimized (onGasPricesReceived r1 s)) r2)"
    using assms(2) by (simp add: onGasPricesReceived_prices [OF assms(1)] onGasPricesReceived_frame)
qed

lemma ten_to_the_ninth: "(10 :: rat) ^ 9 = 1000000000"
  by (simp add: eval_nat_numeral)

lemma idealGasPriceInGwei_first:
  assumes "length (var_speeds s) = 4"
  shows "idealGasPriceInGwei (Some 1) s = Inr (hd (map gwei (var_speeds s)))"
proof -
  obtain a b c d where xs: "var_speeds s = [a, b, c, d]"
    using assms by (rule length_4_cases)
  show ?thesis by (simp add: idealGasPriceInGwei_def xs js_index_4)
qed

subsection \<open>The new entries, written out\<close>

lemma newSpeed4_optimized_explicit:
  "newSpeed4_optimized opt r =
     (if opt \<and> fastestWait r = fastWait r
      then \<lparr> gwei = fast r / 10, wait = fastWait r \<rparr>
      else \<lparr> gwei = fastest r / 10, wait = fastestWait r \<rparr>)"
  by (simp add: newSpeed4_optimized_def newSpeed3_def newSpeed4_def)

lemma newSpeeds_explicit:
  "newSpeeds opt r =
     [\<lparr> gwei = safeLow r / 10, wait = safeLowWait r \<rparr>,
      \<lparr> gwei = average r / 10, wait = avgWait r \<rparr>,
      \<lparr> gwei = fast r / 10, wait = fastWait r \<rparr>,
      (if opt \<and> fastestWait r = fastWait r
       then \<lparr> gwei = fast r / 10, wait = fastWait r \<rparr>
       else \<lparr> gwei = fastest r / 10, wait = fastestWait r \<rparr>)]"
  by (simp add: newSpeeds_def newSpeed1_def newSpeed2_def newSpeed3_def
      newSpeed4_optimized_explicit)

lemma newSpeeds_prices:
  "map gwei (newSpeeds opt r) =
     [safeLow r / 10, average r / 10, fast r / 10,
      (if opt \<and> fastestWait r = fastWait r then fast r else fastest r) / 10]"
  by (simp add: newSpeeds_explicit)

subsection \<open>The two models agree on the numbers of the contract\<close>

lemma js_index_map: "js_index (map f xs) k = map_option f (js_index xs k)"
proof (cases "k = of_int \<lfloor>k\<rfloor> \<and> 0 \<le> k \<and> k < of_nat (length xs)")
  case True
  then have "of_int \<lfloor>k\<rfloor> < (of_nat (length xs) :: rat)" and "0 \<le> \<lfloor>k\<rfloor>" by simp_all
  then have "nat \<lfloor>k\<rfloor> < length xs"
    by (metis nat_less_iff of_int_less_iff of_int_of_nat_eq)
  with True show ?thesis by (simp add: js_index_def)
next
  case False
  then show ?thesis by (auto simp: js_index_def)
qed

lemma setSpeed_js_agrees:
  "setSpeed_js (Num t) (js_of_state s) = (fst (setSpeed t s), js_of_state (snd (setSpeed t s)))"
  by (simp add: setSpeed_js_def setSpeed_def console_log_js_def console_log_def js_of_state_def)

lemma gwei_differs_js_agrees:
  "gwei_differs_js (map js_of_entry xs) k (js_of_entry n) = gwei_differs xs k n"
  by (simp add: gwei_differs_js_def gwei_differs_def js_index_map js_ne_def js_of_entry_def
      split: option.splits)

lemma js_of_entry_fields:
  "gwei_js (js_of_entry e) = Num (gwei e)" "wait_js (js_of_entry e) = Some (wait e)"
  by (simp_all add: js_of_entry_def)

lemma js_of_newSpeed:
  "\<lparr> gwei_js = Num (safeLow r / 10), wait_js = Some (safeLowWait r) \<rparr> = js_of_entry (newSpeed1 r)"
  "\<lparr> gwei_js = Num (average r / 10), wait_js = Some (avgWait r) \<rparr> = js_of_entry (newSpeed2 r)"
  "\<lparr> gwei_js = Num (fast r / 10), wait_js = Some (fastWait r) \<rparr> = js_of_entry (newSpeed3 r)"
  "\<lparr> gwei_js = Num (fastest r / 10), wait_js = Some (fastestWait r) \<rparr> = js_of_entry (newSpeed4 r)"
  by (simp_all add: js_of_entry_def newSpeed1_def newSpeed2_def newSpeed3_def newSpeed4_def)

lemma onGasPricesReceived_js_agrees:
  "onGasPricesReceived_js (js_of_response r) (js_of_state s) =
   js_of_state (onGasPricesReceived r s)"
proof -
  define n4 where "n4 = newSpeed4_optimized (var_optimized s) r"
  define c where "c = js_or [gwei_differs (var_speeds s) 0 (newSpeed1 r),
                            gwei_differs (var_speeds s) 1 (newSpeed2 r),
                            gwei_differs (var_speeds s) 2 (newSpeed3 r),
                            gwei_differs (var_speeds s) 3 n4]"
  have w: "wait (newSpeed3 r) = fastWait r" "wait (newSpeed4 r) = fastestWait r"
    by (simp_all add: newSpeed3_def newSpeed4_def)
  have o: "(if var_optimized s then
              (if fastestWait r = fastWait r then js_of_entry (newSpeed3 r)
               else js_of_entry (newSpeed4 r))
            else js_of_entry (newSpeed4 r)) = js_of_entry n4"
    by (simp add: n4_def newSpeed4_optimized_def w)
  have raw: "onGasPricesReceived_js (js_of_response r) (js_of_state s) =
     (case c of
        Inl e \<Rightarrow> (js_of_state s)\<lparr> js_details := Some (js_of_response r),
                     js_trace := map js_of_event (trace s) @ [Uncaught_js e] \<rparr>
      | Inr b \<Rightarrow>
          (if b then
             (let s2 = console_log_js
                         (NewSpeedLimits_js (Num (gwei (newSpeed1 r))) (Num (gwei (newSpeed2 r)))
                            (Num (gwei (newSpeed3 r))) (Num (gwei n4)))
                         ((js_of_state s)\<lparr> js_details := Some (js_of_response r) \<rparr>);
                  s3 = s2\<lparr> js_speeds := map js_of_entry
                              ([newSpeed1 r, newSpeed2 r, newSpeed3 r, n4] @ drop 4 (var_speeds s)) \<rparr>
              in if var_onNewSpeedCallback s
                 then s3\<lparr> js_trace := js_trace s3 @ [CallbackInvoked_js] \<rparr> else s3)
           else (js_of_state s)\<lparr> js_details := Some (js_of_response r) \<rparr>))"
  proof -
    have p: "onGasPricesReceived_js (JsObject p) S =
      (let s1 = S\<lparr> js_details := Some (JsObject p) \<rparr>;
           n1 = \<lparr> gwei_js = js_div10 (prop_safeLow p), wait_js = prop_safeLowWait p \<rparr>;
           n2 = \<lparr> gwei_js = js_div10 (prop_average p), wait_js = prop_avgWait p \<rparr>;
           n3 = \<lparr> gwei_js = js_div10 (prop_fast p), wait_js = prop_fastWait p \<rparr>;
           n4 = \<lparr> gwei_js = js_div10 (prop_fastest p), wait_js = prop_fastestWait p \<rparr>;
           n4' = (if js_optimized s1 then (if wait_js n4 = wait_js n3 then n3 else n4) else n4)
       in case js_or [gwei_differs_js (js_speeds s1) 0 n1, gwei_differs_js (js_speeds s1) 1 n2,
                      gwei_differs_js (js_speeds s1) 2 n3, gwei_differs_js (js_speeds s1) 3 n4'] of
            Inl e \<Rightarrow> s1\<lparr> js_trace := js_trace s1 @ [Uncaught_js e] \<rparr>
          | Inr False \<Rightarrow> s1
          | Inr True \<Rightarrow>
              (let s2 = console_log_js
                          (NewSpeedLimits_js (gwei_js n1) (gwei_js n2) (gwei_js n3) (gwei_js n4')) s1;
                   s3 = s2\<lparr> js_speeds := [n1, n2, n3, n4'] @ drop 4 (js_speeds s2) \<rparr>
               in if js_onNewSpeedCallback s3
                  then s3\<lparr> js_trace := js_trace s3 @ [CallbackInvoked_js] \<rparr> else s3))" for p S
      by (simp add: onGasPricesReceived_js_def)
    have f: "js_speeds (js_of_state s) = map js_of_entry (var_speeds s)"
      "js_optimized (js_of_state s) = var_optimized s"
      "js_onNewSpeedCallback (js_of_state s) = var_onNewSpeedCallback s"
      "js_trace (js_of_state s) = map js_of_event (trace s)"
      "js_suppressLogs (js_of_state s) = var_suppressLogs s"
      by (simp_all add: js_of_state_def)
    have cj: "js_or [gwei_differs_js (map js_of_entry (var_speeds s)) 0 (js_of_entry (newSpeed1 r)),
                     gwei_differs_js (map js_of_entry (var_speeds s)) 1 (js_of_entry (newSpeed2 r)),
                     gwei_differs_js (map js_of_entry (var_speeds s)) 2 (js_of_entry (newSpeed3 r)),
                     gwei_differs_js (map js_of_entry (var_speeds s)) 3 (js_of_entry n4)] = c"
      by (simp only: gwei_differs_js_agrees c_def)
    consider (collapse) "var_optimized s" "fastestWait r = fastWait r"
      | (keep) "var_optimized s" "fastestWait r \<noteq> fastWait r"
      | (plain) "\<not> var_optimized s"
      by blast
    then show ?thesis
    proof cases
      case collapse
      then have e: "n4 = newSpeed3 r"
        by (simp add: n4_def newSpeed4_optimized_def w)
      show ?thesis
        unfolding js_of_response_def p
        by (cases c)
           (simp_all add: Let_def f js_of_newSpeed cj [unfolded e] e collapse w
              js_of_entry_fields console_log_js_def drop_map split: bool.splits)
    next
      case keep
      then have e: "n4 = newSpeed4 r"
        by (simp add: n4_def newSpeed4_optimized_def w)
      show ?thesis
        unfolding js_of_response_def p
        by (cases c)
           (simp_all add: Let_def f js_of_newSpeed cj [unfolded e] e keep w
              js_of_entry_fields console_log_js_def drop_map split: bool.splits)
    next
      case plain
      then have e: "n4 = newSpeed4 r"
        by (simp add: n4_def newSpeed4_optimized_def)
      show ?thesis
        unfolding js_of_response_def p
        by (cases c)
           (simp_all add: Let_def f js_of_newSpeed cj [unfolded e] e plain w
              js_of_entry_fields console_log_js_def drop_map split: bool.splits)
    qed
  qed
  have model: "onGasPricesReceived r s =
     (case c of
        Inl e \<Rightarrow> s\<lparr> var_details := Some r, trace := trace s @ [Uncaught e] \<rparr>
      | Inr b \<Rightarrow>
          (if b then
             (let s2 = console_log
                         (NewSpeedLimits (gwei (newSpeed1 r)) (gwei (newSpeed2 r))
                            (gwei (newSpeed3 r)) (gwei n4))
                         (s\<lparr> var_details := Some r \<rparr>);
                  s3 = s2\<lparr> var_speeds := [newSpeed1 r, newSpeed2 r, newSpeed3 r, n4]
                              @ drop 4 (var_speeds s) \<rparr>
              in if var_onNewSpeedCallback s
                 then s3\<lparr> trace := trace s3 @ [CallbackInvoked] \<rparr> else s3)
           else s\<lparr> var_details := Some r \<rparr>))"
    unfolding onGasPricesReceived_def
    by (cases c)
       (simp_all add: Let_def c_def [symmetric] n4_def [symmetric] console_log_def
          split: bool.splits)
  show ?thesis
    unfolding raw model
    by (cases c)
       (simp_all add: Let_def js_of_state_def console_log_js_def console_log_def)
qed

lemma estimateGasCost_js_agrees:
  "estimateGasCost_js (js_of_fetch f) (js_of_state s) = js_of_state (estimateGasCost f s)"
  by (cases f)
     (simp_all add: estimateGasCost_js_def estimateGasCost_def onGasPricesReceived_js_agrees)

section \<open>The claims\<close>

subsection \<open>C1: advancing the speed\<close>

text \<open>
  C1. \<^verbatim>\<open>nextSpeed\<close> hands \<^verbatim>\<open>(_currentSpeed + 1) % 4\<close> to \<^verbatim>\<open>setSpeed\<close> and returns
  the current speed. From the speeds 1, 2 and 4 it returns 2, 3 and 1. From speed 3 the
  remainder is 0, which \<^verbatim>\<open>setSpeed\<close> refuses: the current speed stays 3 and 3 is
  returned, not 4. The comment of the function promises the next available speed, cycling
  at the maximum.
\<close>

theorem nextSpeed_steps:
  "fst (nextSpeed (s\<lparr> var_currentSpeed := 1 \<rparr>)) = 2 \<and>
   fst (nextSpeed (s\<lparr> var_currentSpeed := 2 \<rparr>)) = 3 \<and>
   fst (nextSpeed (s\<lparr> var_currentSpeed := 3 \<rparr>)) = 3 \<and>
   currentSpeed (snd (nextSpeed (s\<lparr> var_currentSpeed := 3 \<rparr>))) = 3 \<and>
   fst (nextSpeed (s\<lparr> var_currentSpeed := 4 \<rparr>)) = 1 \<and>
   fst (nextSpeed (snd (setSpeed 3 module_state))) = 3"
  by (simp add: nextSpeed_def Let_def setSpeed_def js_rem_4 console_log_def currentSpeed_def)

subsection \<open>C2: when a refresh replaces the table and calls the callback\<close>

text \<open>
  C2, as amended. On a table of four entries, a refresh that succeeds replaces the whole
  table with the four new entries, and calls the registered callback once, exactly when
  the list of the four new prices differs from the list of the four stored prices. When
  the prices are equal the table keeps its entries and nothing is printed or called,
  whatever the new waiting times are. Of two such refreshes in a row whose new prices are
  equal, the second leaves the table as the first left it and calls nothing; the first
  calls the callback only when its prices differ from the stored ones.
\<close>

theorem refresh_change_detection:
  assumes "length (var_speeds s) = 4"
  shows "speeds (estimateGasCost (Done r ''success'') s) =
           (if map gwei (speeds s) = map gwei (newSpeeds (var_optimized s) r)
            then speeds s else newSpeeds (var_optimized s) r) \<and>
         callbacks (estimateGasCost (Done r ''success'') s) =
           (if var_onNewSpeedCallback s \<and>
               map gwei (speeds s) \<noteq> map gwei (newSpeeds (var_optimized s) r)
            then callbacks s + 1 else callbacks s) \<and>
         (map gwei (speeds s) = map gwei (newSpeeds (var_optimized s) r) \<longrightarrow>
            trace (estimateGasCost (Done r ''success'') s) = trace s) \<and>
         (map gwei (newSpeeds (var_optimized s) r2) = map gwei (newSpeeds (var_optimized s) r) \<longrightarrow>
            speeds (estimateGasCost (Done r2 ''success'') (estimateGasCost (Done r ''success'') s)) =
              speeds (estimateGasCost (Done r ''success'') s) \<and>
            callbacks (estimateGasCost (Done r2 ''success'') (estimateGasCost (Done r ''success'') s)) =
              callbacks (estimateGasCost (Done r ''success'') s) \<and>
            callbacks (estimateGasCost (Done r2 ''success'') (estimateGasCost (Done r ''success'') s)) =
              (if var_onNewSpeedCallback s \<and>
                  map gwei (speeds s) \<noteq> map gwei (newSpeeds (var_optimized s) r)
               then callbacks s + 1 else callbacks s))"
proof -
  have a: "speeds (estimateGasCost (Done r ''success'') s) =
           (if map gwei (speeds s) = map gwei (newSpeeds (var_optimized s) r)
            then speeds s else newSpeeds (var_optimized s) r)"
    by (simp add: estimateGasCost_success speeds_def onGasPricesReceived_speeds [OF assms])
  have b: "callbacks (estimateGasCost (Done r ''success'') s) =
           (if var_onNewSpeedCallback s \<and>
               map gwei (speeds s) \<noteq> map gwei (newSpeeds (var_optimized s) r)
            then callbacks s + 1 else callbacks s)"
    by (simp add: estimateGasCost_success speeds_def onGasPricesReceived_callbacks [OF assms])
  have c: "trace (estimateGasCost (Done r ''success'') s) = trace s"
    if "map gwei (speeds s) = map gwei (newSpeeds (var_optimized s) r)"
    using that by (simp add: estimateGasCost_success speeds_def onGasPricesReceived_unchanged [OF assms])
  have d: "speeds (estimateGasCost (Done r2 ''success'') (estimateGasCost (Done r ''success'') s)) =
              speeds (estimateGasCost (Done r ''success'') s) \<and>
            callbacks (estimateGasCost (Done r2 ''success'') (estimateGasCost (Done r ''success'') s)) =
              callbacks (estimateGasCost (Done r ''success'') s)"
    if "map gwei (newSpeeds (var_optimized s) r2) = map gwei (newSpeeds (var_optimized s) r)"
    by (simp add: estimateGasCost_success speeds_def callbacks_def
        onGasPricesReceived_twice [OF assms that])
  from a b c d show ?thesis by simp
qed

text \<open>
  The theorem at the document of the example, with a callback registered, followed by
  the same document with other waiting times: one call in all. And at a document with
  the prices of the initial table and other waiting times: nothing is printed or called.
\<close>

theorem refresh_change_detection_witness:
  "length (var_speeds (run [Init True None False] module_state)) = 4 \<and>
   speeds (estimateGasCost (Done example_response ''success'')
             (run [Init True None False] module_state)) = newSpeeds True example_response \<and>
   callbacks (estimateGasCost (Done example_response ''success'')
                (run [Init True None False] module_state)) = 1 \<and>
   map gwei (newSpeeds True (example_response\<lparr> safeLowWait := 9, avgWait := 8 \<rparr>)) =
     map gwei (newSpeeds True example_response) \<and>
   map wait (newSpeeds True (example_response\<lparr> safeLowWait := 9, avgWait := 8 \<rparr>)) \<noteq>
     map wait (newSpeeds True example_response) \<and>
   callbacks (estimateGasCost (Done (example_response\<lparr> safeLowWait := 9, avgWait := 8 \<rparr>) ''success'')
                (estimateGasCost (Done example_response ''success'')
                   (run [Init True None False] module_state))) = 1 \<and>
   speeds (estimateGasCost (Done (example_response\<lparr> safeLowWait := 9, avgWait := 8 \<rparr>) ''success'')
                (estimateGasCost (Done example_response ''success'')
                   (run [Init True None False] module_state))) = newSpeeds True example_response \<and>
   map gwei (speeds module_state) =
     map gwei (newSpeeds (var_optimized module_state) initial_prices_response) \<and>
   map wait (speeds module_state) \<noteq>
     map wait (newSpeeds (var_optimized module_state) initial_prices_response) \<and>
   trace (estimateGasCost (Done initial_prices_response ''success'') module_state) =
     trace module_state"
proof -
  have q: "map gwei (speeds module_state) =
     map gwei (newSpeeds (var_optimized module_state) initial_prices_response)"
    "map wait (speeds module_state) \<noteq>
     map wait (newSpeeds (var_optimized module_state) initial_prices_response)"
    by (simp_all add: speeds_def module_state_def newSpeeds_def newSpeed1_def newSpeed2_def
        newSpeed3_def newSpeed4_def newSpeed4_optimized_def initial_prices_response_def)
  from q(1) refresh_change_detection [OF module_state_length, of initial_prices_response]
  have u: "trace (estimateGasCost (Done initial_prices_response ''success'') module_state) =
     trace module_state"
    by blast
  have h: "length (var_speeds (run [Init True None False] module_state)) = 4"
    by (rule run_length) (rule module_state_length)
  have s0: "var_optimized (run [Init True None False] module_state)"
    "var_onNewSpeedCallback (run [Init True None False] module_state)"
    "callbacks (run [Init True None False] module_state) = 0"
    "map gwei (speeds (run [Init True None False] module_state)) = [1, 5, 10, 20]"
    by (simp_all add: run_def init_def Let_def console_log_def module_state_def callbacks_def
        speeds_def)
  have p: "map gwei (newSpeeds True example_response) = [1, 1, 8, 8]"
    "map gwei (newSpeeds True (example_response\<lparr> safeLowWait := 9, avgWait := 8 \<rparr>)) = [1, 1, 8, 8]"
    "map wait (newSpeeds True example_response) = [16 / 5, 16 / 5, 1 / 2, 1 / 2]"
    "map wait (newSpeeds True (example_response\<lparr> safeLowWait := 9, avgWait := 8 \<rparr>)) = [9, 8, 1 / 2, 1 / 2]"
    by (simp_all add: newSpeeds_def newSpeed1_def newSpeed2_def newSpeed3_def newSpeed4_def
        newSpeed4_optimized_def example_response_def)
  show ?thesis
    using h refresh_change_detection
      [OF h, of example_response "example_response\<lparr> safeLowWait := 9, avgWait := 8 \<rparr>"]
    by (simp add: s0 p q u)
qed

text \<open>
  The claim as first stated counts exactly one call of the callback over two refreshes
  with equal prices. With a callback registered and prices equal to the ones the table
  starts with, neither refresh calls it.
\<close>

theorem two_fetches_no_callback:
  "var_onNewSpeedCallback (run [Init True None False] module_state) \<and>
   callbacks (run [Init True None False,
                   RequestEnds (Done initial_prices_response ''success''),
                   RequestEnds (Done initial_prices_response ''success'')] module_state) = 0"
  by code_simp

subsection \<open>C3: the optimization\<close>

text \<open>
  C3. The fourth new entry is the third new entry, price and waiting time, exactly when
  \<^verbatim>\<open>_optimized\<close> is true and the reported waiting time of "fastest" equals that of
  "fast"; in every other case, \<^verbatim>\<open>_optimized\<close> false included, it is the reported
  "fastest" price divided by 10 with the reported "fastest" waiting time. The replacement
  comes before the comparison with the table: on a table of four entries, a refresh that
  succeeds compares the stored prices with the prices of these entries, the fourth as
  replaced, and on a difference stores these entries and calls the callback. For fast 80
  with wait 0.5 and fastest 350 with wait 0.5 the fourth entry is 8 gwei when optimized
  and 35 gwei when not, and the table of a freshly loaded module holds these entries after
  the refresh.
\<close>

theorem optimization_collapse:
  assumes "length (var_speeds s) = 4"
  shows
  "newSpeed4_optimized opt r =
     (if opt \<and> fastestWait r = fastWait r
      then \<lparr> gwei = fast r / 10, wait = fastWait r \<rparr>
      else \<lparr> gwei = fastest r / 10, wait = fastestWait r \<rparr>) \<and>
   speeds (estimateGasCost (Done r ''success'') s) =
     (if map gwei (speeds s) =
           [safeLow r / 10, average r / 10, fast r / 10,
            (if var_optimized s \<and> fastestWait r = fastWait r then fast r else fastest r) / 10]
      then speeds s
      else [\<lparr> gwei = safeLow r / 10, wait = safeLowWait r \<rparr>,
            \<lparr> gwei = average r / 10, wait = avgWait r \<rparr>,
            \<lparr> gwei = fast r / 10, wait = fastWait r \<rparr>,
            (if var_optimized s \<and> fastestWait r = fastWait r
             then \<lparr> gwei = fast r / 10, wait = fastWait r \<rparr>
             else \<lparr> gwei = fastest r / 10, wait = fastestWait r \<rparr>)]) \<and>
   callbacks (estimateGasCost (Done r ''success'') s) =
     (if var_onNewSpeedCallback s \<and>
         map gwei (speeds s) \<noteq>
           [safeLow r / 10, average r / 10, fast r / 10,
            (if var_optimized s \<and> fastestWait r = fastWait r then fast r else fastest r) / 10]
      then callbacks s + 1 else callbacks s) \<and>
   (fast r = 80 \<and> fastWait r = 1 / 2 \<and> fastest r = 350 \<and> fastestWait r = 1 / 2 \<longrightarrow>
      newSpeed4_optimized True r = \<lparr> gwei = 8, wait = 1 / 2 \<rparr> \<and>
      newSpeed4_optimized False r = \<lparr> gwei = 35, wait = 1 / 2 \<rparr> \<and>
      newSpeed4_optimized False r \<noteq> newSpeed3 r \<and>
      speeds (estimateGasCost (Done r ''success'') (optimized True module_state)) =
        [newSpeed1 r, newSpeed2 r, \<lparr> gwei = 8, wait = 1 / 2 \<rparr>, \<lparr> gwei = 8, wait = 1 / 2 \<rparr>] \<and>
      speeds (estimateGasCost (Done r ''success'') (optimized False module_state)) =
        [newSpeed1 r, newSpeed2 r, \<lparr> gwei = 8, wait = 1 / 2 \<rparr>, \<lparr> gwei = 35, wait = 1 / 2 \<rparr>])"
proof -
  have a: "speeds (estimateGasCost (Done r ''success'') s) =
     (if map gwei (speeds s) =
           [safeLow r / 10, average r / 10, fast r / 10,
            (if var_optimized s \<and> fastestWait r = fastWait r then fast r else fastest r) / 10]
      then speeds s
      else [\<lparr> gwei = safeLow r / 10, wait = safeLowWait r \<rparr>,
            \<lparr> gwei = average r / 10, wait = avgWait r \<rparr>,
            \<lparr> gwei = fast r / 10, wait = fastWait r \<rparr>,
            (if var_optimized s \<and> fastestWait r = fastWait r
             then \<lparr> gwei = fast r / 10, wait = fastWait r \<rparr>
             else \<lparr> gwei = fastest r / 10, wait = fastestWait r \<rparr>)])"
    unfolding estimateGasCost_success speeds_def onGasPricesReceived_speeds [OF assms]
      newSpeeds_prices
    by (simp only: newSpeeds_explicit)
  have b: "callbacks (estimateGasCost (Done r ''success'') s) =
     (if var_onNewSpeedCallback s \<and>
         map gwei (speeds s) \<noteq>
           [safeLow r / 10, average r / 10, fast r / 10,
            (if var_optimized s \<and> fastestWait r = fastWait r then fast r else fastest r) / 10]
      then callbacks s + 1 else callbacks s)"
    unfolding estimateGasCost_success speeds_def onGasPricesReceived_callbacks [OF assms]
      newSpeeds_prices
    by (rule refl)
  have c: "newSpeed4_optimized True r = \<lparr> gwei = 8, wait = 1 / 2 \<rparr> \<and>
      newSpeed4_optimized False r = \<lparr> gwei = 35, wait = 1 / 2 \<rparr> \<and>
      newSpeed4_optimized False r \<noteq> newSpeed3 r \<and>
      speeds (estimateGasCost (Done r ''success'') (optimized True module_state)) =
        [newSpeed1 r, newSpeed2 r, \<lparr> gwei = 8, wait = 1 / 2 \<rparr>, \<lparr> gwei = 8, wait = 1 / 2 \<rparr>] \<and>
      speeds (estimateGasCost (Done r ''success'') (optimized False module_state)) =
        [newSpeed1 r, newSpeed2 r, \<lparr> gwei = 8, wait = 1 / 2 \<rparr>, \<lparr> gwei = 35, wait = 1 / 2 \<rparr>]"
    if ex: "fast r = 80 \<and> fastWait r = 1 / 2 \<and> fastest r = 350 \<and> fastestWait r = 1 / 2"
  proof -
    have n: "newSpeed3 r = \<lparr> gwei = 8, wait = 1 / 2 \<rparr>"
      "newSpeed4_optimized True r = \<lparr> gwei = 8, wait = 1 / 2 \<rparr>"
      "newSpeed4_optimized False r = \<lparr> gwei = 35, wait = 1 / 2 \<rparr>"
      using ex by (simp_all add: newSpeed4_optimized_def newSpeed3_def newSpeed4_def)
    have l: "length (var_speeds (optimized b module_state)) = 4" for b
      by (simp add: optimized_def console_log_def module_state_def)
    have o: "var_optimized (optimized b module_state) = b"
      "map gwei (var_speeds (optimized b module_state)) = [1, 5, 10, 20]" for b
      by (simp_all add: optimized_def console_log_def module_state_def)
    have t: "speeds (estimateGasCost (Done r ''success'') (optimized b module_state)) =
             newSpeeds b r" for b
      by (simp add: estimateGasCost_success speeds_def onGasPricesReceived_speeds [OF l] o
          newSpeeds_def n)
    show ?thesis by (simp add: t n newSpeeds_def)
  qed
  note d = newSpeed4_optimized_explicit [of opt r]
  from c have e: "fast r = 80 \<and> fastWait r = 1 / 2 \<and> fastest r = 350 \<and> fastestWait r = 1 / 2 \<longrightarrow>
      newSpeed4_optimized True r = \<lparr> gwei = 8, wait = 1 / 2 \<rparr> \<and>
      newSpeed4_optimized False r = \<lparr> gwei = 35, wait = 1 / 2 \<rparr> \<and>
      newSpeed4_optimized False r \<noteq> newSpeed3 r \<and>
      speeds (estimateGasCost (Done r ''success'') (optimized True module_state)) =
        [newSpeed1 r, newSpeed2 r, \<lparr> gwei = 8, wait = 1 / 2 \<rparr>, \<lparr> gwei = 8, wait = 1 / 2 \<rparr>] \<and>
      speeds (estimateGasCost (Done r ''success'') (optimized False module_state)) =
        [newSpeed1 r, newSpeed2 r, \<lparr> gwei = 8, wait = 1 / 2 \<rparr>, \<lparr> gwei = 35, wait = 1 / 2 \<rparr>]"
    by (rule impI)
  show ?thesis
    by (rule conjI [OF d conjI [OF a conjI [OF b e]]])
qed

text \<open>
  The theorem on the module after \<^verbatim>\<open>init\<close> with a callback: at the document of the
  example (equal waiting times: 8 gwei, one call, and no second call when the same
  document comes again), at the same document with another waiting time for "fastest"
  (35 gwei), and at a document with the prices of the initial table and different waiting
  times (the table stays, no call).
\<close>

theorem optimization_collapse_witness:
  "length (var_speeds (init True None False module_state)) = 4 \<and>
   (fast example_response = 80 \<and> fastWait example_response = 1 / 2 \<and>
    fastest example_response = 350 \<and> fastestWait example_response = 1 / 2) \<and>
   newSpeed4_optimized True example_response = \<lparr> gwei = 8, wait = 1 / 2 \<rparr> \<and>
   newSpeed4_optimized False example_response = \<lparr> gwei = 35, wait = 1 / 2 \<rparr> \<and>
   newSpeed4_optimized True (example_response\<lparr> fastestWait := 1 / 4 \<rparr>) =
     \<lparr> gwei = 35, wait = 1 / 4 \<rparr> \<and>
   speeds (estimateGasCost (Done example_response ''success'')
             (init True None False module_state)) =
     [\<lparr> gwei = 1, wait = 16 / 5 \<rparr>, \<lparr> gwei = 1, wait = 16 / 5 \<rparr>,
      \<lparr> gwei = 8, wait = 1 / 2 \<rparr>, \<lparr> gwei = 8, wait = 1 / 2 \<rparr>] \<and>
   callbacks (estimateGasCost (Done example_response ''success'')
                (init True None False module_state)) = 1 \<and>
   callbacks (estimateGasCost (Done example_response ''success'')
                (estimateGasCost (Done example_response ''success'')
                   (init True None False module_state))) = 1 \<and>
   speeds (estimateGasCost (Done (example_response\<lparr> fastestWait := 1 / 4 \<rparr>) ''success'')
             (init True None False module_state)) =
     [\<lparr> gwei = 1, wait = 16 / 5 \<rparr>, \<lparr> gwei = 1, wait = 16 / 5 \<rparr>,
      \<lparr> gwei = 8, wait = 1 / 2 \<rparr>, \<lparr> gwei = 35, wait = 1 / 4 \<rparr>] \<and>
   fastestWait initial_prices_response \<noteq> fastWait initial_prices_response \<and>
   speeds (estimateGasCost (Done initial_prices_response ''success'')
             (init True None False module_state)) =
     speeds (init True None False module_state) \<and>
   callbacks (estimateGasCost (Done initial_prices_response ''success'')
                (init True None False module_state)) = 0 \<and>
   speeds (estimateGasCost (Done example_response ''success'') (optimized False module_state)) =
     [newSpeed1 example_response, newSpeed2 example_response,
      \<lparr> gwei = 8, wait = 1 / 2 \<rparr>, \<lparr> gwei = 35, wait = 1 / 2 \<rparr>]"
proof -
  let ?s0 = "init True None False module_state"
  let ?r = "example_response"
  let ?r' = "example_response\<lparr> fastestWait := 1 / 4 \<rparr>"
  let ?s1 = "estimateGasCost (Done ?r ''success'') ?s0"
  have l0: "length (var_speeds ?s0) = 4"
    by (simp add: init_def Let_def console_log_def module_state_def)
  have s0: "var_optimized ?s0" "var_onNewSpeedCallback ?s0" "callbacks ?s0 = 0"
    "speeds ?s0 = [\<lparr> gwei = 1, wait = 71 / 10 \<rparr>, \<lparr> gwei = 5, wait = 7 / 2 \<rparr>,
                   \<lparr> gwei = 10, wait = 1 / 2 \<rparr>, \<lparr> gwei = 20, wait = 1 / 2 \<rparr>]"
    by (simp_all add: init_def Let_def console_log_def module_state_def callbacks_def speeds_def)
  have r: "safeLow ?r = 10" "average ?r = 10" "fast ?r = 80" "fastest ?r = 350"
    "safeLowWait ?r = 16 / 5" "avgWait ?r = 16 / 5" "fastWait ?r = 1 / 2"
    "fastestWait ?r = 1 / 2"
    by (simp_all add: example_response_def)
  have r': "safeLow ?r' = 10" "average ?r' = 10" "fast ?r' = 80" "fastest ?r' = 350"
    "safeLowWait ?r' = 16 / 5" "avgWait ?r' = 16 / 5" "fastWait ?r' = 1 / 2"
    "fastestWait ?r' = 1 / 4"
    by (simp_all add: example_response_def)
  have i: "safeLow initial_prices_response = 10" "average initial_prices_response = 50"
    "fast initial_prices_response = 100" "fastest initial_prices_response = 200"
    "fastWait initial_prices_response = 1" "fastestWait initial_prices_response = 1 / 2"
    by (simp_all add: initial_prices_response_def)
  have ex: "fast ?r = 80 \<and> fastWait ?r = 1 / 2 \<and> fastest ?r = 350 \<and> fastestWait ?r = 1 / 2"
    by (simp add: r)
  note t1 = optimization_collapse [OF l0, of True ?r]
  from t1 ex have c: "newSpeed4_optimized True ?r = \<lparr> gwei = 8, wait = 1 / 2 \<rparr>"
    "newSpeed4_optimized False ?r = \<lparr> gwei = 35, wait = 1 / 2 \<rparr>"
    "speeds (estimateGasCost (Done ?r ''success'') (optimized False module_state)) =
     [newSpeed1 ?r, newSpeed2 ?r, \<lparr> gwei = 8, wait = 1 / 2 \<rparr>, \<lparr> gwei = 35, wait = 1 / 2 \<rparr>]"
    by blast+
  have a1: "speeds ?s1 =
     [\<lparr> gwei = 1, wait = 16 / 5 \<rparr>, \<lparr> gwei = 1, wait = 16 / 5 \<rparr>,
      \<lparr> gwei = 8, wait = 1 / 2 \<rparr>, \<lparr> gwei = 8, wait = 1 / 2 \<rparr>]"
    and b1: "callbacks ?s1 = 1"
    using t1 by (simp_all add: s0 r)
  have l1: "length (var_speeds ?s1) = 4"
    using l0 by (rule estimateGasCost_length)
  have s1: "var_optimized ?s1" "var_onNewSpeedCallback ?s1"
    using s0 by (simp_all add: estimateGasCost_success onGasPricesReceived_frame)
  have b2: "callbacks (estimateGasCost (Done ?r ''success'') ?s1) = 1"
    using optimization_collapse [OF l1, of True ?r] by (simp add: s1 a1 b1 r)
  note t3 = optimization_collapse [OF l0, of True ?r']
  have d: "newSpeed4_optimized True ?r' = \<lparr> gwei = 35, wait = 1 / 4 \<rparr>"
    using t3 by (simp add: r')
  have a3: "speeds (estimateGasCost (Done ?r' ''success'') ?s0) =
     [\<lparr> gwei = 1, wait = 16 / 5 \<rparr>, \<lparr> gwei = 1, wait = 16 / 5 \<rparr>,
      \<lparr> gwei = 8, wait = 1 / 2 \<rparr>, \<lparr> gwei = 35, wait = 1 / 4 \<rparr>]"
    using t3 by (simp add: s0 r')
  note t4 = optimization_collapse [OF l0, of True initial_prices_response]
  have a4: "speeds (estimateGasCost (Done initial_prices_response ''success'') ?s0) = speeds ?s0"
    and b4: "callbacks (estimateGasCost (Done initial_prices_response ''success'') ?s0) = 0"
    using t4 by (simp_all add: s0 i)
  have w: "fastestWait initial_prices_response \<noteq> fastWait initial_prices_response"
    by (simp add: i)
  from l0 r(3) r(7) r(4) r(8) c a1 b1 b2 d a3 w a4 b4 show ?thesis
    by (intro conjI) assumption+
qed

subsection \<open>C4: a request that fails\<close>

text \<open>
  C4, as amended. When the request ends without jQuery calling the function (no answer,
  an HTTP error, a body jQuery cannot parse), or with a status other than "success", the
  module is exactly as before: no variable changes, nothing is printed, the callback is
  not called, and \<^verbatim>\<open>speeds()\<close> returns the same table. A body that jQuery hands over
  with the status "success" is stored in \<^verbatim>\<open>_details\<close> whatever its shape.
\<close>

theorem request_without_success_is_noop:
  "estimateGasCost_js NotCalled s = s \<and>
   (status \<noteq> ''success'' \<longrightarrow> estimateGasCost_js (Called b status) s = s) \<and>
   js_speeds (estimateGasCost_js NotCalled s) = js_speeds s \<and>
   callbacks_js (estimateGasCost_js NotCalled s) = callbacks_js s \<and>
   js_details (estimateGasCost_js (Called b ''success'') s) = Some b \<and>
   estimateGasCost Failed u = u \<and>
   (status \<noteq> ''success'' \<longrightarrow> estimateGasCost (Done r status) u = u) \<and>
   speeds (estimateGasCost Failed u) = speeds u \<and>
   callbacks (estimateGasCost Failed u) = callbacks u"
proof -
  have "js_details (onGasPricesReceived_js b s) = Some b"
    by (cases b)
       (simp_all add: onGasPricesReceived_js_def Let_def console_log_js_def
          split: sum.splits bool.splits)
  then show ?thesis
    by (simp add: estimateGasCost_js_def estimateGasCost_def)
qed

text \<open>The theorem at the status "error".\<close>

theorem request_without_success_is_noop_witness:
  "''error'' \<noteq> ''success'' \<and>
   estimateGasCost_js (Called error_body ''error'') (js_of_state module_state) =
     js_of_state module_state \<and>
   estimateGasCost_js NotCalled (js_of_state module_state) = js_of_state module_state \<and>
   estimateGasCost (Done example_response ''error'') module_state = module_state"
  using request_without_success_is_noop
    [of "js_of_state module_state" "''error''" error_body module_state example_response]
  by simp

text \<open>
  The claim as first stated counts a malformed body among the failures. Nothing in lines
  38 to 48 looks at the shape of the body: an object without the eight properties, handed
  over with "success", is stored in \<^verbatim>\<open>_details\<close>, its four prices are NaN, NaN differs
  from every stored price, so the table is replaced and the callback is called.
\<close>

theorem malformed_body_is_processed:
  "js_details (estimateGasCost_js (Called error_body ''success'')
      (js_of_state (init True None False module_state))) = Some error_body \<and>
   js_speeds (estimateGasCost_js (Called error_body ''success'')
      (js_of_state (init True None False module_state))) =
     [\<lparr> gwei_js = NaN, wait_js = None \<rparr>, \<lparr> gwei_js = NaN, wait_js = None \<rparr>,
      \<lparr> gwei_js = NaN, wait_js = None \<rparr>, \<lparr> gwei_js = NaN, wait_js = None \<rparr>] \<and>
   callbacks_js (estimateGasCost_js (Called error_body ''success'')
      (js_of_state (init True None False module_state))) = 1 \<and>
   callbacks_js (js_of_state (init True None False module_state)) = 0 \<and>
   estimateGasCost_js (Called error_body ''success'')
      (js_of_state (init True None False module_state)) \<noteq>
     js_of_state (init True None False module_state)"
  by code_simp

subsection \<open>C5: choosing a speed\<close>

text \<open>
  C5, as amended. For every number \<open>t\<close>, NaN and the infinities included,
  \<^verbatim>\<open>setSpeed(t)\<close> returns true and makes \<open>t\<close> the current speed exactly when neither
  \<open>t < 1\<close> nor \<open>t > 4\<close> holds: when \<open>1 \<le> t \<le> 4\<close>, or \<open>t\<close> is NaN. For an integer \<open>t\<close>
  that is exactly when \<open>t\<close> is one of 1, 2, 3, 4. For every \<open>t\<close> below 1 or above 4,
  such as 0 or 5, it returns false and leaves the module as it was.
\<close>

theorem setSpeed_accepts_exactly:
  "fst (setSpeed_js t s) =
     (case t of Num v \<Rightarrow> 1 \<le> v \<and> v \<le> 4 | PosInf \<Rightarrow> False | NegInf \<Rightarrow> False | NaN \<Rightarrow> True) \<and>
   snd (setSpeed_js t s) =
     (if fst (setSpeed_js t s)
      then console_log_js (DefaultSpeedSet_js t) (s\<lparr> js_currentSpeed := t \<rparr>) else s) \<and>
   js_currentSpeed (snd (setSpeed_js t s)) =
     (if fst (setSpeed_js t s) then t else js_currentSpeed s) \<and>
   fst (setSpeed_js (Num (of_int n)) s) = (n \<in> {1, 2, 3, 4}) \<and>
   setSpeed_js (Num 0) s = (False, s) \<and> setSpeed_js (Num 5) s = (False, s) \<and>
   fst (setSpeed_js NaN s) \<and> js_currentSpeed (snd (setSpeed_js NaN s)) = NaN \<and>
   setSpeed_js (Num v) (js_of_state u) = (fst (setSpeed v u), js_of_state (snd (setSpeed v u)))"
proof -
  have a: "fst (setSpeed_js t s) =
     (case t of Num v \<Rightarrow> 1 \<le> v \<and> v \<le> 4 | PosInf \<Rightarrow> False | NegInf \<Rightarrow> False | NaN \<Rightarrow> True)"
    by (cases t) (auto simp: setSpeed_js_def)
  have b: "snd (setSpeed_js t s) =
     (if fst (setSpeed_js t s)
      then console_log_js (DefaultSpeedSet_js t) (s\<lparr> js_currentSpeed := t \<rparr>) else s)"
    by (simp add: setSpeed_js_def)
  have c: "js_currentSpeed (snd (setSpeed_js t s)) =
     (if fst (setSpeed_js t s) then t else js_currentSpeed s)"
    by (simp add: setSpeed_js_def console_log_js_def)
  have "(1 \<le> n \<and> n \<le> 4) = (n = 1 \<or> n = 2 \<or> n = 3 \<or> n = 4)" by arith
  then have d: "fst (setSpeed_js (Num (of_int n)) s) = (n \<in> {1, 2, 3, 4})"
    by (auto simp: setSpeed_js_def)
  have e: "setSpeed_js (Num 0) s = (False, s)" "setSpeed_js (Num 5) s = (False, s)"
    "fst (setSpeed_js NaN s)" "js_currentSpeed (snd (setSpeed_js NaN s)) = NaN"
    by (simp_all add: setSpeed_js_def console_log_js_def)
  note f = setSpeed_js_agrees [of v u]
  from a b c d e f show ?thesis by (intro conjI)
qed

text \<open>
  The claim as first stated accepts only the four speeds. The check of \<^verbatim>\<open>setSpeed\<close> is
  a check of the range alone: 2.5 is accepted and becomes the current speed.
\<close>

theorem setSpeed_accepts_fraction:
  "fst (setSpeed (5 / 2) module_state) \<and>
   currentSpeed (snd (setSpeed (5 / 2) module_state)) = 5 / 2 \<and>
   currentSpeed (snd (setSpeed (5 / 2) module_state)) \<notin> {1, 2, 3, 4}"
  by (simp add: setSpeed_def console_log_def currentSpeed_def)

subsection \<open>C6: the current speed is one of the four speeds\<close>

text \<open>
  C6, as amended. After any sequence of calls of \<^verbatim>\<open>init\<close>, \<^verbatim>\<open>setSpeed\<close> with integer
  arguments, \<^verbatim>\<open>nextSpeed\<close>, \<^verbatim>\<open>optimized\<close> and ends of requests, starting from the
  freshly loaded module, the current speed is one of 1, 2, 3, 4.
\<close>

theorem currentSpeed_invariant:
  assumes "list_all integer_argument cs"
  shows "currentSpeed (run cs module_state) \<in> {1, 2, 3, 4}"
proof -
  have "var_currentSpeed module_state \<in> {1, 2, 3, 4}"
    by (simp add: module_state_def defaultSpeed_def)
  with assms show ?thesis
    unfolding currentSpeed_def by (rule run_currentSpeed)
qed

text \<open>The theorem at a sequence of nine calls.\<close>

theorem currentSpeed_invariant_witness:
  "list_all integer_argument
     [Init True None False, SetSpeed 4, NextSpeed, SetSpeed 7,
      RequestEnds (Done example_response ''success''), Optimized False, SetSpeed 3,
      NextSpeed, SetSpeed 0] \<and>
   currentSpeed (run
     [Init True None False, SetSpeed 4, NextSpeed, SetSpeed 7,
      RequestEnds (Done example_response ''success''), Optimized False, SetSpeed 3,
      NextSpeed, SetSpeed 0] module_state) \<in> {1, 2, 3, 4}"
proof -
  have h: "list_all integer_argument
     [Init True None False, SetSpeed 4, NextSpeed, SetSpeed 7,
      RequestEnds (Done example_response ''success''), Optimized False, SetSpeed 3,
      NextSpeed, SetSpeed 0]"
    by simp
  from h currentSpeed_invariant [OF h] show ?thesis by (rule conjI)
qed

text \<open>
  The claim as first stated lets \<^verbatim>\<open>setSpeed\<close> take any number. After
  \<^verbatim>\<open>setSpeed(2.5)\<close> the current speed is 2.5.
\<close>

theorem fraction_breaks_currentSpeed:
  "currentSpeed (run [Init True None False, SetSpeed (5 / 2)] module_state) \<notin> {1, 2, 3, 4}"
  by (simp add: run_def init_def Let_def setSpeed_def console_log_def currentSpeed_def)

subsection \<open>C7: the units\<close>

text \<open>
  C7. Each of the four new entries holds the reported price of its speed divided by 10
  and the reported waiting time of its speed. \<^verbatim>\<open>idealGasPrice\<close> is
  \<^verbatim>\<open>idealGasPriceInGwei\<close> times \<open>10^9\<close>. On a table of four entries, after a refresh
  that succeeds, the first three stored prices are the reported prices divided by 10; in
  particular a reported "safeLow" of 10 gives 1 gwei for speed 1, and \<open>1 \<times> 10^9\<close> wei.
\<close>

theorem unit_conversion:
  "newSpeed1 r = \<lparr> gwei = safeLow r / 10, wait = safeLowWait r \<rparr> \<and>
   newSpeed2 r = \<lparr> gwei = average r / 10, wait = avgWait r \<rparr> \<and>
   newSpeed3 r = \<lparr> gwei = fast r / 10, wait = fastWait r \<rparr> \<and>
   newSpeed4 r = \<lparr> gwei = fastest r / 10, wait = fastestWait r \<rparr> \<and>
   idealGasPrice t s =
     (case idealGasPriceInGwei t s of Inl e \<Rightarrow> Inl e | Inr g \<Rightarrow> Inr (g * 10 ^ 9)) \<and>
   (length (var_speeds s) = 4 \<longrightarrow>
      map gwei (speeds (estimateGasCost (Done r ''success'') s)) =
        [safeLow r / 10, average r / 10, fast r / 10,
         gwei (newSpeed4_optimized (var_optimized s) r)]) \<and>
   (length (var_speeds s) = 4 \<and> safeLow r = 10 \<longrightarrow>
      idealGasPriceInGwei (Some 1) (estimateGasCost (Done r ''success'') s) = Inr 1 \<and>
      idealGasPrice (Some 1) (estimateGasCost (Done r ''success'') s) = Inr (1 * 10 ^ 9))"
proof -
  have a: "idealGasPrice t s =
     (case idealGasPriceInGwei t s of Inl e \<Rightarrow> Inl e | Inr g \<Rightarrow> Inr (g * 10 ^ 9))"
    by (simp add: idealGasPrice_def ten_to_the_ninth split: sum.splits)
  have b: "map gwei (speeds (estimateGasCost (Done r ''success'') s)) =
        [safeLow r / 10, average r / 10, fast r / 10,
         gwei (newSpeed4_optimized (var_optimized s) r)]"
    if l: "length (var_speeds s) = 4"
    by (simp add: estimateGasCost_success speeds_def onGasPricesReceived_prices [OF l]
        newSpeeds_def newSpeed1_def newSpeed2_def newSpeed3_def)
  have c: "idealGasPriceInGwei (Some 1) (estimateGasCost (Done r ''success'') s) = Inr 1 \<and>
      idealGasPrice (Some 1) (estimateGasCost (Done r ''success'') s) = Inr (1 * 10 ^ 9)"
    if h: "length (var_speeds s) = 4 \<and> safeLow r = 10"
  proof -
    from h have l: "length (var_speeds s) = 4" and p: "safeLow r = 10" by simp_all
    have "length (var_speeds (estimateGasCost (Done r ''success'') s)) = 4"
      using l by (rule estimateGasCost_length)
    then have "idealGasPriceInGwei (Some 1) (estimateGasCost (Done r ''success'') s) =
               Inr (hd (map gwei (var_speeds (estimateGasCost (Done r ''success'') s))))"
      by (rule idealGasPriceInGwei_first)
    also have "\<dots> = Inr 1"
      using b [OF l] p by (simp add: speeds_def)
    finally show ?thesis by (simp add: idealGasPrice_def ten_to_the_ninth)
  qed
  from a b c show ?thesis
    by (simp add: newSpeed1_def newSpeed2_def newSpeed3_def newSpeed4_def)
qed

text \<open>The theorem at the document of the example, on the freshly loaded module.\<close>

theorem unit_conversion_witness:
  "length (var_speeds module_state) = 4 \<and> safeLow example_response = 10 \<and>
   map gwei (speeds (estimateGasCost (Done example_response ''success'') module_state)) =
     [1, 1, 8, 8] \<and>
   idealGasPriceInGwei (Some 1) (estimateGasCost (Done example_response ''success'') module_state)
     = Inr 1 \<and>
   idealGasPrice (Some 1) (estimateGasCost (Done example_response ''success'') module_state)
     = Inr 1000000000"
proof -
  have l: "length (var_speeds module_state) = 4" by (rule module_state_length)
  have p: "safeLow example_response = 10" "average example_response = 10"
    "fast example_response = 80"
    "gwei (newSpeed4_optimized (var_optimized module_state) example_response) = 8"
    by (simp_all add: example_response_def module_state_def newSpeed4_optimized_def
        newSpeed3_def newSpeed4_def)
  from l p unit_conversion [of example_response "Some 1" module_state] show ?thesis
    by (simp add: ten_to_the_ninth)
qed

subsection \<open>C8: the speed left out\<close>

text \<open>
  C8. In every state, \<^verbatim>\<open>idealGasPriceInGwei\<close> called without a speed, or with the
  speed 0, returns what it returns for the current speed; after \<^verbatim>\<open>setSpeed(3)\<close> the
  call without a speed returns what the call with 3 returns (10 gwei on the freshly
  loaded module).
\<close>

theorem default_speed_fallback:
  "idealGasPriceInGwei None s = idealGasPriceInGwei (Some (currentSpeed s)) s \<and>
   idealGasPriceInGwei (Some 0) s = idealGasPriceInGwei (Some (currentSpeed s)) s \<and>
   idealGasPriceInGwei None (snd (setSpeed 3 s)) =
     idealGasPriceInGwei (Some 3) (snd (setSpeed 3 s)) \<and>
   idealGasPriceInGwei None (snd (setSpeed 3 module_state)) = Inr 10"
  by (simp add: idealGasPriceInGwei_def currentSpeed_def setSpeed_def console_log_def
      module_state_def js_index_def)

subsection \<open>C9: a speed outside the table\<close>

text \<open>
  C9. For a speed \<open>t\<close> that is not 0 and not one of 1, 2, 3, 4, on a table of four
  entries, \<^verbatim>\<open>_speeds[t - 1]\<close> is undefined: \<^verbatim>\<open>idealGasPriceInGwei(t)\<close> and
  \<^verbatim>\<open>idealGasPrice(t)\<close> return no price (reading \<^verbatim>\<open>gwei\<close> of undefined throws).
\<close>

theorem out_of_range_read:
  assumes "t \<noteq> 0" and "t \<notin> {1, 2, 3, 4}" and "length (var_speeds s) = 4"
  shows "js_index (var_speeds s) (t - 1) = None \<and>
         idealGasPriceInGwei (Some t) s = Inl TypeError \<and>
         idealGasPrice (Some t) s = Inl TypeError"
proof -
  have "js_index (var_speeds s) (t - 1) = None"
    using assms(2,3) by (rule js_index_outside)
  with assms(1) show ?thesis
    by (simp add: idealGasPriceInGwei_def idealGasPrice_def)
qed

text \<open>The theorem at speed 5 on the freshly loaded module.\<close>

theorem out_of_range_read_witness:
  "(5 :: rat) \<noteq> 0 \<and> (5 :: rat) \<notin> {1, 2, 3, 4} \<and> length (var_speeds module_state) = 4 \<and>
   js_index (var_speeds module_state) (5 - 1) = None \<and>
   idealGasPriceInGwei (Some 5) module_state = Inl TypeError \<and>
   idealGasPrice (Some 5) module_state = Inl TypeError"
  using out_of_range_read [of 5 module_state] by (simp add: module_state_def)

subsection \<open>C10: what a refresh writes besides the table\<close>

text \<open>
  C10. A refresh that succeeds stores the received document in \<^verbatim>\<open>_details\<close> in every
  case. On a table of four entries whose prices equal the new prices, that is the only
  change to the module: the table, the printed lines and the calls of the callback stay
  as they were. No end of a request, successful or not, changes the current speed or
  \<^verbatim>\<open>_optimized\<close>.
\<close>

theorem refresh_frame:
  "details (estimateGasCost (Done r ''success'') s) = Some r \<and>
   currentSpeed (estimateGasCost f s) = currentSpeed s \<and>
   var_optimized (estimateGasCost f s) = var_optimized s \<and>
   (length (var_speeds s) = 4 \<and>
    map gwei (speeds s) = map gwei (newSpeeds (var_optimized s) r) \<longrightarrow>
      estimateGasCost (Done r ''success'') s = s\<lparr> var_details := Some r \<rparr>)"
  by (simp add: estimateGasCost_success details_def currentSpeed_def speeds_def
      onGasPricesReceived_frame estimateGasCost_frame onGasPricesReceived_unchanged)

text \<open>
  The theorem on the freshly loaded module, at a document with the prices of the initial
  table: \<^verbatim>\<open>_details\<close> goes from undefined to the document, the table stays.
\<close>

theorem refresh_frame_witness:
  "length (var_speeds module_state) = 4 \<and>
   map gwei (speeds module_state) =
     map gwei (newSpeeds (var_optimized module_state) initial_prices_response) \<and>
   details module_state = None \<and>
   details (estimateGasCost (Done initial_prices_response ''success'') module_state) =
     Some initial_prices_response \<and>
   speeds (estimateGasCost (Done initial_prices_response ''success'') module_state) =
     speeds module_state \<and>
   callbacks (estimateGasCost (Done initial_prices_response ''success'') module_state) =
     callbacks module_state"
proof -
  have l: "length (var_speeds module_state) = 4" by (rule module_state_length)
  have p: "map gwei (speeds module_state) =
     map gwei (newSpeeds (var_optimized module_state) initial_prices_response)"
    by (simp add: speeds_def module_state_def newSpeeds_def newSpeed1_def newSpeed2_def
        newSpeed3_def newSpeed4_def newSpeed4_optimized_def initial_prices_response_def)
  have d: "details module_state = None" by (simp add: details_def module_state_def)
  from l p refresh_frame [of initial_prices_response module_state]
  have "estimateGasCost (Done initial_prices_response ''success'') module_state =
        module_state\<lparr> var_details := Some initial_prices_response \<rparr>"
    by blast
  with l p d show ?thesis by (simp add: details_def speeds_def callbacks_def)
qed

end
